theory Spec2Isabelle
  imports Complex_Main
begin

section \<open>Data model of the Lighter connector\<close>

text \<open>
  The theory embeds \<^verbatim>\<open>utils/connectors/lighter/lighter_connector.py\<close> and the data classes
  of \<^verbatim>\<open>utils/connectors/base_connector.py\<close>.

  Conventions of the embedding.
  \<^item> A Python \<^verbatim>\<open>float\<close> is an exact \<^typ>\<open>real\<close>: binary rounding of IEEE doubles is not
    modelled.
  \<^item> A raised exception is an \<open>Inl\<close> value; the constructors of \<open>error\<close> name the raise
    sites of the source (the source raises plain \<^verbatim>\<open>Exception\<close> with a message).
  \<^item> The connector object is a record that every operation takes and returns. Its
    construction (the bulk initialisation of the caches) is not part of the model: the
    operations are studied on any state of the caches.
  \<^item> The remote venue, the signing client and the process environment are a record of
    functions, \<open>venue\<close>, that fixes what each request answers.
\<close>

type_synonym symbol = string
type_synonym market_id = int

datatype OrderSide = BUY | SELL
datatype OrderType = MARKET | LIMIT | STOP_LOSS | TAKE_PROFIT
datatype OrderStatus = PENDING | FILLED | PARTIAL

text \<open>\<^verbatim>\<open>Order\<close> without its timestamp; \<open>price\<close> is \<^verbatim>\<open>Optional[float]\<close>.\<close>

record Order =
  order_id :: string
  order_symbol :: symbol
  order_side :: OrderSide
  order_type :: OrderType
  order_size :: real
  order_price :: "real option"
  order_status :: OrderStatus

text \<open>\<^verbatim>\<open>Position\<close> without its timestamp.\<close>

record Position =
  pos_symbol :: symbol
  pos_side :: OrderSide
  pos_size :: real
  pos_entry_price :: real
  pos_current_price :: real
  pos_unrealized_pnl :: real
  pos_leverage :: real

datatype error =
    KeyError string
  | TypeError
  | ValueError
  | AttributeError
  | TransportError
  | TradingNotEnabled
  | UnknownSymbol symbol
  | BaseEndpointNotConfigured
  | NoPriceData symbol
  | OrderFailed string
  | PollIntervalRequired
  | TxFailedStatus string int
  | TxNotConfirmed string int
  | Failed string error

text \<open>
  The caches hold whatever the venue's JSON carried: a decimals entry is an integer or
  Python's \<^verbatim>\<open>None\<close> (the bulk initialisation stores \<^verbatim>\<open>orderbook.get(...)\<close>, which is
  \<^verbatim>\<open>None\<close> for an absent field). \<open>Some None\<close> is a key cached with the value \<^verbatim>\<open>None\<close>.
\<close>

record connector =
  base_endpoint :: "string option"
  signer_client :: bool
  account_index :: "int option"
  symbol_to_market_id_cache :: "symbol \<rightharpoonup> market_id"
  market_size_decimals :: "market_id \<rightharpoonup> int option"
  market_price_decimals :: "market_id \<rightharpoonup> int option"
  market_min_base_amounts :: "market_id \<rightharpoonup> real option"
  trade_log :: "Order list"

section \<open>Precision conversion\<close>

text \<open>Python's \<^verbatim>\<open>int(x)\<close> on a float: the fractional part is dropped, toward zero.\<close>

definition py_int :: "real \<Rightarrow> int" where
  "py_int x = (if 0 \<le> x then \<lfloor>x\<rfloor> else \<lceil>x\<rceil>)"

text \<open>\<^verbatim>\<open>10 ** d\<close> for an integer \<open>d\<close>: an int when \<open>d\<close> is not negative, the float
  \<open>1 / 10 ^ (- d)\<close> otherwise.\<close>

definition pow10 :: "int \<Rightarrow> real" where
  "pow10 d = (if 0 \<le> d then 10 ^ nat d else 1 / 10 ^ nat (- d))"

text \<open>
  \<^verbatim>\<open>self._market_size_decimals[market_id]\<close> raises \<^verbatim>\<open>KeyError\<close> on a market that is not
  cached, and \<^verbatim>\<open>10 ** None\<close> raises \<^verbatim>\<open>TypeError\<close>.
\<close>

definition convert_size_to_lighter_format :: "connector \<Rightarrow> real \<Rightarrow> market_id \<Rightarrow> error + int" where
  "convert_size_to_lighter_format c sz m =
     (case market_size_decimals c m of
        None \<Rightarrow> Inl (KeyError ''market_id'')
      | Some None \<Rightarrow> Inl TypeError
      | Some (Some size_decimal) \<Rightarrow> Inr (py_int (sz * pow10 size_decimal)))"

definition convert_price_to_lighter_format :: "connector \<Rightarrow> real \<Rightarrow> market_id \<Rightarrow> error + int" where
  "convert_price_to_lighter_format c price m =
     (case market_price_decimals c m of
        None \<Rightarrow> Inl (KeyError ''market_id'')
      | Some None \<Rightarrow> Inl TypeError
      | Some (Some price_decimal) \<Rightarrow> Inr (py_int (price * pow10 price_decimal)))"

section \<open>The venue, the signing client and the environment\<close>

text \<open>
  The answer to \<^verbatim>\<open>GET /orderbook-meta\<close>, a JSON object. A field is \<open>None\<close> when the key is
  absent (\<^verbatim>\<open>orderbook_details['size_decimals']\<close> then raises \<^verbatim>\<open>KeyError\<close>) and
  \<open>Some None\<close> when it is present with the value null.
\<close>

record orderbook_details =
  size_decimals :: "int option option"
  price_decimals :: "int option option"
  min_base_amount :: "real option option"

text \<open>The arguments of the signing client's \<^verbatim>\<open>create_market_order\<close>.\<close>

record order_request =
  market_index :: market_id
  client_order_index :: int
  base_amount :: int
  avg_execution_price :: int
  is_ask :: bool
  reduce_only :: bool

text \<open>
  The second component of what \<^verbatim>\<open>create_market_order\<close> returns: nothing, an object with or
  without a \<^verbatim>\<open>tx_hash\<close> attribute, or a dict with or without a \<^verbatim>\<open>'tx_hash'\<close> key. The third
  component, \<open>err\<close>, is \<open>None\<close> when it is falsy.
\<close>

datatype signer_response = NoResponse | ResponseObject "string option" | ResponseDict "string option"

record signer_result =
  response :: signer_response
  err :: "string option"

text \<open>
  \<^verbatim>\<open>event_info\<close> of a transaction, as \<^verbatim>\<open>json.loads\<close> and the lookups see it:
  \<^item> \<open>NotJSON\<close>: \<^verbatim>\<open>json.loads\<close> raises \<^verbatim>\<open>JSONDecodeError\<close>;
  \<^item> \<open>NotATrade\<close>: the text is JSON, but not an object whose \<^verbatim>\<open>'t'\<close> is an object with
    numeric \<^verbatim>\<open>'p'\<close> and \<^verbatim>\<open>'s'\<close> (or the field is null), so that a lookup or a division raises
    \<^verbatim>\<open>AttributeError\<close> or \<^verbatim>\<open>TypeError\<close>;
  \<^item> \<open>TradeInfo p s\<close>: the fields \<^verbatim>\<open>'p'\<close> and \<^verbatim>\<open>'s'\<close> of \<^verbatim>\<open>event_info.get('t', {})\<close>, \<open>None\<close>
    when absent. An absent \<^verbatim>\<open>event_info\<close> is read as \<^verbatim>\<open>'{}'\<close>, that is \<open>TradeInfo None None\<close>.
\<close>

datatype event_info = NotJSON | NotATrade | TradeInfo "real option" "real option"

record tx_data =
  tx_status :: "int option"
  tx_event_info :: event_info
  block_height :: "int option"
  executed_at :: "int option"

text \<open>
  One answer to \<^verbatim>\<open>GET /tx\<close>: \<open>NoAnswer\<close> when \<^verbatim>\<open>requests.get\<close> raises, otherwise the HTTP
  status code and the body, \<open>None\<close> when \<^verbatim>\<open>response.json()\<close> would raise.
\<close>

datatype tx_answer = NoAnswer | Answer nat "tx_data option"

text \<open>One entry of \<^verbatim>\<open>account_data['positions']\<close>; a field is \<open>None\<close> when the key is absent.\<close>

record pos_data =
  pd_position :: "real option"
  pd_symbol :: "symbol option"
  pd_sign :: "int option"
  pd_initial_margin_fraction :: "real option"
  pd_avg_entry_price :: "real option"
  pd_unrealized_pnl :: "real option"

text \<open>An environment variable read with \<^verbatim>\<open>os.getenv\<close> and parsed as a number.\<close>

datatype 'a env_var = Unset | Blank | NotNumeric | Value 'a

text \<open>
  \<^item> \<open>orderbook_meta\<close>, \<open>orderbook_orders\<close>, \<open>account\<close>: \<open>Inl\<close> when the request,
    \<^verbatim>\<open>raise_for_status\<close> or the JSON decoding raises. \<open>orderbook_orders\<close> gives the best bid
    and the best ask, \<open>None\<close> for a side that is empty or whose price is falsy;
    \<open>account\<close> gives, per account of the answer, the list of its positions.
  \<^item> \<open>tx h n\<close>: the answer to the \<open>n\<close>-th status request for hash \<open>h\<close>, counted from 0.
\<close>

record venue =
  orderbook_meta :: "market_id \<Rightarrow> error + orderbook_details"
  orderbook_orders :: "market_id \<Rightarrow> error + real option \<times> real option"
  create_market_order :: "order_request \<Rightarrow> signer_result"
  tx :: "string \<Rightarrow> nat \<Rightarrow> tx_answer"
  account :: "error + pos_data list list"
  LIGHTER_POLL_INTERVAL :: "real env_var"
  LIGHTER_FILL_TIMEOUT :: "int env_var"

section \<open>Market metadata\<close>

text \<open>
  \<^verbatim>\<open>_ensure_market_data\<close>. The three assignments run one after the other, so a \<^verbatim>\<open>KeyError\<close>
  at the second or third leaves the earlier ones in the caches.
\<close>

definition ensure_market_data :: "connector \<Rightarrow> venue \<Rightarrow> market_id \<Rightarrow> (error + unit) \<times> connector" where
  "ensure_market_data c v m =
     (if m \<in> dom (market_size_decimals c) \<and> m \<in> dom (market_price_decimals c)
         \<and> m \<in> dom (market_min_base_amounts c)
      then (Inr (), c)
      else if base_endpoint c = None \<or> base_endpoint c = Some []
      then (Inl (Failed ''get market decimals'' BaseEndpointNotConfigured), c)
      else
        (case orderbook_meta v m of
           Inl e \<Rightarrow> (Inl (Failed ''get market decimals'' e), c)
         | Inr details \<Rightarrow>
            (case size_decimals details of
               None \<Rightarrow> (Inl (Failed ''get market decimals'' (KeyError ''size_decimals'')), c)
             | Some sd \<Rightarrow>
                let c1 = c\<lparr>market_size_decimals := (market_size_decimals c)(m \<mapsto> sd)\<rparr> in
                (case price_decimals details of
                   None \<Rightarrow> (Inl (Failed ''get market decimals'' (KeyError ''price_decimals'')), c1)
                 | Some pd \<Rightarrow>
                    let c2 = c1\<lparr>market_price_decimals := (market_price_decimals c1)(m \<mapsto> pd)\<rparr> in
                    (case min_base_amount details of
                       None \<Rightarrow>
                         (Inl (Failed ''get market decimals'' (KeyError ''min_base_amount'')), c2)
                     | Some mb \<Rightarrow>
                         (Inr (),
                          c2\<lparr>market_min_base_amounts := (market_min_base_amounts c2)(m \<mapsto> mb)\<rparr>))))))"

section \<open>Current price\<close>

definition get_current_price :: "connector \<Rightarrow> venue \<Rightarrow> symbol \<Rightarrow> error + real" where
  "get_current_price c v symbol =
     (case symbol_to_market_id_cache c symbol of
        None \<Rightarrow> Inl (Failed ''get current price'' (UnknownSymbol symbol))
      | Some market_id \<Rightarrow>
         (case base_endpoint c of
            None \<Rightarrow> Inl (Failed ''get current price'' AttributeError)
          | Some base_url \<Rightarrow>
             (case orderbook_orders v market_id of
                Inl e \<Rightarrow> Inl (Failed ''get current price'' e)
              | Inr (Some best_bid, Some best_ask) \<Rightarrow> Inr ((best_bid + best_ask) / 2)
              | Inr (Some best_bid, None) \<Rightarrow> Inr best_bid
              | Inr (None, Some best_ask) \<Rightarrow> Inr best_ask
              | Inr (None, None) \<Rightarrow> Inl (Failed ''get current price'' (NoPriceData symbol)))))"

section \<open>Waiting for a fill\<close>

text \<open>
  The dict that \<^verbatim>\<open>_wait_for_fill\<close> returns. \<open>fr_block_height\<close> and \<open>fr_executed_at\<close> are
  \<open>None\<close> in the dict of the \<^verbatim>\<open>JSONDecodeError\<close> branch, which has no such keys.
\<close>

record fill_result =
  fr_status :: string
  fr_tx_hash :: string
  actual_price :: "real option"
  actual_size :: real
  fr_block_height :: "int option"
  fr_executed_at :: "int option"
  fr_tx_data :: tx_data

text \<open>What one pass through the body of the \<^verbatim>\<open>try\<close> block does.\<close>

datatype poll_outcome = Return fill_result | Raise error | Continue

text \<open>
  The body of the \<^verbatim>\<open>try\<close> block for one answer of the venue. \<^verbatim>\<open>status and status > 3\<close> is
  false for an absent status and for 0.
\<close>

definition poll_tx :: "connector \<Rightarrow> string \<Rightarrow> real \<Rightarrow> tx_answer \<Rightarrow> poll_outcome" where
  "poll_tx c tx_hash expected_size answer =
     (case base_endpoint c of
        None \<Rightarrow> Raise AttributeError
      | Some base_url \<Rightarrow>
         (case answer of
            NoAnswer \<Rightarrow> Raise TransportError
          | Answer status_code body \<Rightarrow>
             if status_code = 200 then
               (case body of
                  None \<Rightarrow> Raise ValueError
                | Some d \<Rightarrow>
                   if tx_status d = Some 3 then
                     (case tx_event_info d of
                        TradeInfo p s \<Rightarrow>
                          let price = (case p of None \<Rightarrow> 0 | Some x \<Rightarrow> x) / 100;
                              amount = (case s of None \<Rightarrow> 0 | Some x \<Rightarrow> x) / 10000
                          in Return
                            \<lparr>fr_status = ''FILLED'', fr_tx_hash = tx_hash,
                             actual_price = (if price > 0 then Some price else None),
                             actual_size = (if amount > 0 then amount else expected_size),
                             fr_block_height = block_height d, fr_executed_at = executed_at d,
                             fr_tx_data = d\<rparr>
                      | NotJSON \<Rightarrow>
                          Return
                            \<lparr>fr_status = ''FILLED'', fr_tx_hash = tx_hash,
                             actual_price = None, actual_size = expected_size,
                             fr_block_height = None, fr_executed_at = None, fr_tx_data = d\<rparr>
                      | NotATrade \<Rightarrow> Raise TypeError)
                   else if tx_status d = Some 2 then Continue
                   else
                     (case tx_status d of
                        None \<Rightarrow> Continue
                      | Some status \<Rightarrow>
                          if status \<noteq> 0 \<and> status > 3 then Raise (TxFailedStatus tx_hash status)
                          else Continue))
             else if status_code = 404 then Continue
             else Continue))"

text \<open>
  The state of the loop: the time since \<^verbatim>\<open>start_time\<close> and the number of status requests
  sent. Time is simulated: a request takes none, and \<^verbatim>\<open>asyncio.sleep(d)\<close> takes \<open>d\<close>, or
  none when \<open>d\<close> is negative.
\<close>

record wait_state =
  elapsed :: real
  polls :: nat

definition sleep :: "real \<Rightarrow> wait_state \<Rightarrow> wait_state" where
  "sleep d s = s\<lparr>elapsed := elapsed s + max 0 d\<rparr>"

text \<open>
  The \<^verbatim>\<open>while\<close> loop of \<^verbatim>\<open>_wait_for_fill\<close>. An exception raised in the \<^verbatim>\<open>try\<close> block is
  caught by \<^verbatim>\<open>except Exception\<close>, which sleeps; the loop then goes on. \<open>None\<close> is a loop
  that never ends.
\<close>

partial_function (option) wait_loop ::
  "connector \<Rightarrow> (nat \<Rightarrow> tx_answer) \<Rightarrow> string \<Rightarrow> real \<Rightarrow> real \<Rightarrow> int \<Rightarrow> wait_state
     \<Rightarrow> ((error + fill_result) \<times> wait_state) option" where
  "wait_loop c answers tx_hash expected_size poll_interval timeout s =
     (if elapsed s < real_of_int timeout then
        (case poll_tx c tx_hash expected_size (answers (polls s)) of
           Return r \<Rightarrow> Some (Inr r, s\<lparr>polls := Suc (polls s)\<rparr>)
         | Raise e \<Rightarrow>
             wait_loop c answers tx_hash expected_size poll_interval timeout
               (sleep poll_interval (s\<lparr>polls := Suc (polls s)\<rparr>))
         | Continue \<Rightarrow>
             wait_loop c answers tx_hash expected_size poll_interval timeout
               (sleep poll_interval (s\<lparr>polls := Suc (polls s)\<rparr>)))
      else Some (Inl (TxNotConfirmed tx_hash timeout), s))"

text \<open>\<^verbatim>\<open>_wait_for_fill\<close>, with the final state of its loop.\<close>

definition wait_for_fill_trace ::
  "connector \<Rightarrow> venue \<Rightarrow> string \<Rightarrow> symbol \<Rightarrow> OrderSide \<Rightarrow> real \<Rightarrow> int
     \<Rightarrow> ((error + fill_result) \<times> wait_state) option" where
  "wait_for_fill_trace c v tx_hash symbol expected_side expected_size timeout =
     (case LIGHTER_POLL_INTERVAL v of
        Unset \<Rightarrow> Some (Inl PollIntervalRequired, \<lparr>elapsed = 0, polls = 0\<rparr>)
      | Blank \<Rightarrow> Some (Inl PollIntervalRequired, \<lparr>elapsed = 0, polls = 0\<rparr>)
      | NotNumeric \<Rightarrow> Some (Inl ValueError, \<lparr>elapsed = 0, polls = 0\<rparr>)
      | Value poll_interval \<Rightarrow>
          wait_loop c (tx v tx_hash) tx_hash expected_size poll_interval timeout
            \<lparr>elapsed = 0, polls = 0\<rparr>)"

definition wait_for_fill ::
  "connector \<Rightarrow> venue \<Rightarrow> string \<Rightarrow> symbol \<Rightarrow> OrderSide \<Rightarrow> real \<Rightarrow> int
     \<Rightarrow> (error + fill_result) option" where
  "wait_for_fill c v tx_hash symbol expected_side expected_size timeout =
     map_option fst (wait_for_fill_trace c v tx_hash symbol expected_side expected_size timeout)"

section \<open>Order placement\<close>

text \<open>\<^verbatim>\<open>slippage or 0.01\<close>: Python's \<^verbatim>\<open>or\<close> takes the right operand when the left one is
  \<^verbatim>\<open>None\<close> and also when it is \<^verbatim>\<open>0.0\<close>.\<close>

definition slippage_or_default :: "real option \<Rightarrow> real" where
  "slippage_or_default slippage =
     (case slippage of None \<Rightarrow> 0.01 | Some x \<Rightarrow> if x = 0 then 0.01 else x)"

text \<open>
  The worst acceptable price. Buying (\<^verbatim>\<open>place_market_buy_order\<close>, \<^verbatim>\<open>close_sell_position\<close>):
  \<^verbatim>\<open>slippage = slippage or 0.01; worst_price = current_price * (1 + slippage)\<close>. Selling
  (\<^verbatim>\<open>place_market_sell_order\<close>, \<^verbatim>\<open>close_buy_position\<close>): the same with \<^verbatim>\<open>1 - slippage\<close>.
\<close>

definition worst_price_buy :: "real \<Rightarrow> real option \<Rightarrow> real" where
  "worst_price_buy current_price slippage =
     (let slippage = slippage_or_default slippage in current_price * (1 + slippage))"

definition worst_price_sell :: "real \<Rightarrow> real option \<Rightarrow> real" where
  "worst_price_sell current_price slippage =
     (let slippage = slippage_or_default slippage in current_price * (1 - slippage))"

text \<open>The transaction hash read off the signing client's response, \<^verbatim>\<open>"unknown"\<close> when it
  has none.\<close>

definition extract_tx_hash :: "signer_response \<Rightarrow> string" where
  "extract_tx_hash r =
     (case r of
        ResponseObject (Some h) \<Rightarrow> h
      | ResponseDict (Some h) \<Rightarrow> h
      | _ \<Rightarrow> ''unknown'')"

text \<open>\<^verbatim>\<open>_log_trade\<close> appends the order to the trade log.\<close>

definition log_trade :: "connector \<Rightarrow> Order \<Rightarrow> connector" where
  "log_trade c order = c\<lparr>trade_log := trade_log c @ [order]\<rparr>"

text \<open>
  The four operations share their text up to the slippage computation, and from the
  conversion to the extraction of the transaction hash. The first shared part: the check of
  the signing client, the market id, the metadata and the current price.
\<close>

definition resolve_market ::
  "connector \<Rightarrow> venue \<Rightarrow> symbol \<Rightarrow> (error + market_id \<times> real) \<times> connector" where
  "resolve_market c v symbol =
     (if \<not> signer_client c then (Inl TradingNotEnabled, c)
      else
        (case symbol_to_market_id_cache c symbol of
           None \<Rightarrow> (Inl (UnknownSymbol symbol), c)
         | Some market_id \<Rightarrow>
            (case ensure_market_data c v market_id of
               (Inl e, c1) \<Rightarrow> (Inl e, c1)
             | (Inr u, c1) \<Rightarrow>
                (case get_current_price c1 v symbol of
                   Inl e \<Rightarrow> (Inl e, c1)
                 | Inr current_price \<Rightarrow> (Inr (market_id, current_price), c1)))))"

text \<open>The second shared part: conversion, submission through the signing client, the check
  of \<^verbatim>\<open>err\<close>, and the transaction hash.\<close>

definition submit_market_order ::
  "connector \<Rightarrow> venue \<Rightarrow> market_id \<Rightarrow> real \<Rightarrow> real \<Rightarrow> bool \<Rightarrow> bool \<Rightarrow> error + string" where
  "submit_market_order c v market_id sz worst_price ask ro =
     (case convert_size_to_lighter_format c sz market_id of
        Inl e \<Rightarrow> Inl e
      | Inr amount \<Rightarrow>
         (case convert_price_to_lighter_format c worst_price market_id of
            Inl e \<Rightarrow> Inl e
          | Inr price \<Rightarrow>
             let res = create_market_order v
                   \<lparr>market_index = market_id, client_order_index = 0, base_amount = amount,
                    avg_execution_price = price, is_ask = ask, reduce_only = ro\<rparr>
             in (case err res of
                   Some e \<Rightarrow> Inl (OrderFailed e)
                 | None \<Rightarrow> Inr (extract_tx_hash (response res)))))"

definition place_market_buy_order ::
  "connector \<Rightarrow> venue \<Rightarrow> symbol \<Rightarrow> real \<Rightarrow> real option \<Rightarrow> ((error + Order) \<times> connector) option" where
  "place_market_buy_order c v symbol sz slippage =
     (case resolve_market c v symbol of
        (Inl e, c1) \<Rightarrow> Some (Inl (Failed ''place market buy order'' e), c1)
      | (Inr (market_id, current_price), c1) \<Rightarrow>
         let worst_price = worst_price_buy current_price slippage in
         (case submit_market_order c1 v market_id sz worst_price False False of
            Inl e \<Rightarrow> Some (Inl (Failed ''place market buy order'' e), c1)
          | Inr tx_hash \<Rightarrow>
             if tx_hash \<noteq> ''unknown'' then
               (case LIGHTER_FILL_TIMEOUT v of
                  Unset \<Rightarrow> Some (Inl (Failed ''place market buy order'' TypeError), c1)
                | Blank \<Rightarrow> Some (Inl (Failed ''place market buy order'' ValueError), c1)
                | NotNumeric \<Rightarrow> Some (Inl (Failed ''place market buy order'' ValueError), c1)
                | Value timeout \<Rightarrow>
                   (case wait_for_fill c1 v tx_hash symbol BUY sz timeout of
                      None \<Rightarrow> None
                    | Some (Inl e) \<Rightarrow> Some (Inl (Failed ''place market buy order'' e), c1)
                    | Some (Inr fill_result) \<Rightarrow>
                       let order =
                         \<lparr>order_id = tx_hash, order_symbol = symbol, order_side = BUY,
                          order_type = MARKET, order_size = actual_size fill_result,
                          order_price = actual_price fill_result, order_status = FILLED\<rparr>
                       in Some (Inr order, log_trade c1 order)))
             else
               let order =
                 \<lparr>order_id = tx_hash, order_symbol = symbol, order_side = BUY,
                  order_type = MARKET, order_size = sz,
                  order_price = Some current_price, order_status = FILLED\<rparr>
               in Some (Inr order, log_trade c1 order)))"

definition place_market_sell_order ::
  "connector \<Rightarrow> venue \<Rightarrow> symbol \<Rightarrow> real \<Rightarrow> real option \<Rightarrow> ((error + Order) \<times> connector) option" where
  "place_market_sell_order c v symbol sz slippage =
     (case resolve_market c v symbol of
        (Inl e, c1) \<Rightarrow> Some (Inl (Failed ''place market sell order'' e), c1)
      | (Inr (market_id, current_price), c1) \<Rightarrow>
         let worst_price = worst_price_sell current_price slippage in
         (case submit_market_order c1 v market_id sz worst_price True False of
            Inl e \<Rightarrow> Some (Inl (Failed ''place market sell order'' e), c1)
          | Inr tx_hash \<Rightarrow>
             let order =
               \<lparr>order_id = tx_hash, order_symbol = symbol, order_side = SELL,
                order_type = MARKET, order_size = sz,
                order_price = Some current_price, order_status = FILLED\<rparr>
             in Some (Inr order, log_trade c1 order)))"

definition close_buy_position ::
  "connector \<Rightarrow> venue \<Rightarrow> symbol \<Rightarrow> real \<Rightarrow> real option \<Rightarrow> ((error + Order) \<times> connector) option" where
  "close_buy_position c v symbol sz slippage =
     (case resolve_market c v symbol of
        (Inl e, c1) \<Rightarrow> Some (Inl (Failed ''close buy position'' e), c1)
      | (Inr (market_id, current_price), c1) \<Rightarrow>
         let worst_price = worst_price_sell current_price slippage in
         (case submit_market_order c1 v market_id sz worst_price True True of
            Inl e \<Rightarrow> Some (Inl (Failed ''close buy position'' e), c1)
          | Inr tx_hash \<Rightarrow>
             if tx_hash \<noteq> ''unknown'' then
               (case LIGHTER_FILL_TIMEOUT v of
                  Unset \<Rightarrow> Some (Inl (Failed ''close buy position'' TypeError), c1)
                | Blank \<Rightarrow> Some (Inl (Failed ''close buy position'' ValueError), c1)
                | NotNumeric \<Rightarrow> Some (Inl (Failed ''close buy position'' ValueError), c1)
                | Value timeout \<Rightarrow>
                   (case wait_for_fill c1 v tx_hash symbol SELL sz timeout of
                      None \<Rightarrow> None
                    | Some (Inl e) \<Rightarrow> Some (Inl (Failed ''close buy position'' e), c1)
                    | Some (Inr fill_result) \<Rightarrow>
                       let order =
                         \<lparr>order_id = tx_hash, order_symbol = symbol, order_side = SELL,
                          order_type = MARKET, order_size = actual_size fill_result,
                          order_price = actual_price fill_result, order_status = FILLED\<rparr>
                       in Some (Inr order, log_trade c1 order)))
             else
               let order =
                 \<lparr>order_id = tx_hash, order_symbol = symbol, order_side = SELL,
                  order_type = MARKET, order_size = sz,
                  order_price = Some current_price, order_status = FILLED\<rparr>
               in Some (Inr order, log_trade c1 order)))"

definition close_sell_position ::
  "connector \<Rightarrow> venue \<Rightarrow> symbol \<Rightarrow> real \<Rightarrow> real option \<Rightarrow> ((error + Order) \<times> connector) option" where
  "close_sell_position c v symbol sz slippage =
     (case resolve_market c v symbol of
        (Inl e, c1) \<Rightarrow> Some (Inl (Failed ''close sell position'' e), c1)
      | (Inr (market_id, current_price), c1) \<Rightarrow>
         let worst_price = worst_price_buy current_price slippage in
         (case submit_market_order c1 v market_id sz worst_price False True of
            Inl e \<Rightarrow> Some (Inl (Failed ''close sell position'' e), c1)
          | Inr tx_hash \<Rightarrow>
             let order =
               \<lparr>order_id = tx_hash, order_symbol = symbol, order_side = BUY,
                order_type = MARKET, order_size = sz,
                order_price = Some current_price, order_status = FILLED\<rparr>
             in Some (Inr order, log_trade c1 order)))"

section \<open>Open positions\<close>

text \<open>The body of the loop over the positions for an entry of non-zero size.\<close>

definition make_position :: "connector \<Rightarrow> venue \<Rightarrow> pos_data \<Rightarrow> real \<Rightarrow> error + Position" where
  "make_position c v pd position_size =
     (case pd_symbol pd of
        None \<Rightarrow> Inl (KeyError ''symbol'')
      | Some symbol \<Rightarrow>
         (case pd_sign pd of
            None \<Rightarrow> Inl (KeyError ''sign'')
          | Some sign \<Rightarrow>
             let side = (if sign = 1 then BUY else SELL) in
             (case get_current_price c v symbol of
                Inl e \<Rightarrow> Inl e
              | Inr price \<Rightarrow>
                 let margin_fraction =
                       (case pd_initial_margin_fraction pd of None \<Rightarrow> 100 | Some f \<Rightarrow> f);
                     lev = (if margin_fraction > 0 then 100 / margin_fraction else 1)
                 in
                 (case pd_avg_entry_price pd of
                    None \<Rightarrow> Inl (KeyError ''avg_entry_price'')
                  | Some entry \<Rightarrow>
                     (case pd_unrealized_pnl pd of
                        None \<Rightarrow> Inl (KeyError ''unrealized_pnl'')
                      | Some pnl \<Rightarrow>
                         Inr \<lparr>pos_symbol = symbol, pos_side = side,
                              pos_size = \<bar>position_size\<bar>, pos_entry_price = entry,
                              pos_current_price = price, pos_unrealized_pnl = pnl,
                              pos_leverage = lev\<rparr>)))))"

text \<open>The \<^verbatim>\<open>for\<close> loop; an exception ends it.\<close>

fun collect_positions :: "connector \<Rightarrow> venue \<Rightarrow> pos_data list \<Rightarrow> error + Position list" where
  "collect_positions c v [] = Inr []"
| "collect_positions c v (pd # rest) =
     (case pd_position pd of
        None \<Rightarrow> Inl (KeyError ''position'')
      | Some position_size \<Rightarrow>
         if position_size \<noteq> 0 then
           (case make_position c v pd position_size of
              Inl e \<Rightarrow> Inl e
            | Inr p \<Rightarrow>
               (case collect_positions c v rest of
                  Inl e \<Rightarrow> Inl e
                | Inr ps \<Rightarrow> Inr (p # ps)))
         else collect_positions c v rest)"

text \<open>
  \<^verbatim>\<open>get_open_positions\<close>. \<^verbatim>\<open>not self.account_index\<close> holds for \<^verbatim>\<open>None\<close> and for 0; every
  exception of the inner \<^verbatim>\<open>try\<close> block gives the empty list.
\<close>

definition get_open_positions :: "connector \<Rightarrow> venue \<Rightarrow> Position list" where
  "get_open_positions c v =
     (if account_index c = None \<or> account_index c = Some 0 then []
      else
        (case account v of
           Inl e \<Rightarrow> []
         | Inr [] \<Rightarrow> []
         | Inr (account_data # others) \<Rightarrow>
            (case collect_positions c v account_data of
               Inl e \<Rightarrow> []
             | Inr positions \<Rightarrow> positions)))"

section \<open>Example data\<close>

text \<open>A connector with one fully cached market, used to run the definitions.\<close>

definition demo_connector :: connector where
  "demo_connector =
     \<lparr>base_endpoint = Some ''https://venue'', signer_client = True, account_index = Some 7,
      symbol_to_market_id_cache = [''ETH'' \<mapsto> 1],
      market_size_decimals = [1 \<mapsto> Some 4],
      market_price_decimals = [1 \<mapsto> Some 2],
      market_min_base_amounts = [1 \<mapsto> Some 0.001],
      trade_log = []\<rparr>"

text \<open>
  A venue for that connector: the book of market 1 has its best bid at 99 and its best ask
  at 101; the signing client accepts every order and answers with the hash \<open>0xabc\<close>; the
  transaction is not found at the first status request, processing at the next two, and
  settled from then on at price 2500.00 and size 1.0; the account holds a short position, an
  empty one and a long one.
\<close>

definition demo_tx :: "nat \<Rightarrow> tx_answer" where
  "demo_tx n =
     (if n = 0 then Answer 404 None
      else if n < 3 then
        Answer 200 (Some \<lparr>tx_status = Some 2, tx_event_info = TradeInfo None None,
                           block_height = None, executed_at = None\<rparr>)
      else
        Answer 200 (Some \<lparr>tx_status = Some 3,
                           tx_event_info = TradeInfo (Some 250000) (Some 10000),
                           block_height = Some 812, executed_at = Some 1700000000\<rparr>))"

definition demo_positions :: "pos_data list" where
  "demo_positions =
     [\<lparr>pd_position = Some 2, pd_symbol = Some ''ETH'', pd_sign = Some (- 1),
       pd_initial_margin_fraction = Some 25, pd_avg_entry_price = Some 2400,
       pd_unrealized_pnl = Some (- 3)\<rparr>,
      \<lparr>pd_position = Some 0, pd_symbol = Some ''BTC'', pd_sign = Some 1,
       pd_initial_margin_fraction = Some 10, pd_avg_entry_price = Some 0,
       pd_unrealized_pnl = Some 0\<rparr>,
      \<lparr>pd_position = Some 5, pd_symbol = Some ''ETH'', pd_sign = Some 1,
       pd_initial_margin_fraction = Some 0, pd_avg_entry_price = Some 90,
       pd_unrealized_pnl = Some 50\<rparr>]"

definition demo_venue :: venue where
  "demo_venue =
     \<lparr>orderbook_meta = (\<lambda>m. Inl TransportError),
      orderbook_orders = (\<lambda>m. Inr (Some 99, Some 101)),
      create_market_order = (\<lambda>r. \<lparr>response = ResponseObject (Some ''0xabc''), err = None\<rparr>),
      tx = (\<lambda>h. demo_tx),
      account = Inr [demo_positions],
      LIGHTER_POLL_INTERVAL = Value 1,
      LIGHTER_FILL_TIMEOUT = Value 30\<rparr>"

text \<open>Venues whose transaction endpoint always gives the same kind of answer.\<close>

definition rejected_tx :: tx_data where
  "rejected_tx = \<lparr>tx_status = Some 4, tx_event_info = TradeInfo None None,
                   block_height = None, executed_at = None\<rparr>"

definition rejecting_venue :: venue where
  "rejecting_venue = demo_venue\<lparr>tx := (\<lambda>h n. Answer 200 (Some rejected_tx))\<rparr>"


text \<open>Settled transactions: the one of \<open>demo_tx\<close>, one whose price field is 0, and one
  whose \<^verbatim>\<open>event_info\<close> is not JSON.\<close>

definition settled_tx :: tx_data where
  "settled_tx = \<lparr>tx_status = Some 3, tx_event_info = TradeInfo (Some 250000) (Some 10000),
                   block_height = Some 812, executed_at = Some 1700000000\<rparr>"

definition unpriced_tx :: tx_data where
  "unpriced_tx = \<lparr>tx_status = Some 3, tx_event_info = TradeInfo (Some 0) (Some 10000),
                   block_height = Some 812, executed_at = Some 1700000000\<rparr>"

definition garbled_tx :: tx_data where
  "garbled_tx = \<lparr>tx_status = Some 3, tx_event_info = NotJSON,
                   block_height = Some 812, executed_at = Some 1700000000\<rparr>"

text \<open>A venue whose metadata answer is complete for market 2 and lacks \<^verbatim>\<open>price_decimals\<close>
  for every other market.\<close>

definition meta_venue :: venue where
  "meta_venue =
     demo_venue\<lparr>orderbook_meta :=
       (\<lambda>m. if m = 2
            then Inr \<lparr>size_decimals = Some (Some 3), price_decimals = Some (Some 1),
                      min_base_amount = Some (Some 0.01)\<rparr>
            else Inr \<lparr>size_decimals = Some (Some 3), price_decimals = None,
                      min_base_amount = Some (Some 0.01)\<rparr>)\<rparr>"


section \<open>Properties of the precision conversion\<close>







section \<open>Properties of the slippage bound\<close>

lemma worst_price_given_slippage:
  "s \<noteq> 0 \<Longrightarrow> worst_price_buy p (Some s) = p * (1 + s) \<and> worst_price_sell p (Some s) = p * (1 - s)"
  by (simp add: worst_price_buy_def worst_price_sell_def slippage_or_default_def)

lemma worst_price_default_slippage:
  "worst_price_buy p None = p * (1 + 0.01) \<and> worst_price_sell p None = p * (1 - 0.01)"
  by (simp add: worst_price_buy_def worst_price_sell_def slippage_or_default_def)

lemma worst_price_spec_example:
  "worst_price_buy 100 (Some 0.01) = 101 \<and> worst_price_sell 100 (Some 0.01) = 99"
  by (simp add: worst_price_buy_def worst_price_sell_def slippage_or_default_def)

text \<open>
  C2 holds for every slippage other than zero and for an absent one (the three lemmas
  above), and fails for a slippage of \<open>0.0\<close> that the caller passes: the bound is then
  \<open>100 * (1 + 0.01) = 101\<close> for a buy and \<open>99\<close> for a sell at price 100, where
  \<open>price * (1 + slippage)\<close> and \<open>price * (1 - slippage)\<close> are both 100.
\<close>

theorem C2_zero_slippage_uses_default:
  "worst_price_buy 100 (Some 0) = 101 \<and> worst_price_sell 100 (Some 0) = 99
   \<and> (100 :: real) * (1 + 0) = 100 \<and> (100 :: real) * (1 - 0) = 100"
  by (simp add: worst_price_buy_def worst_price_sell_def slippage_or_default_def)

text \<open>
  C10: a slippage of \<open>0.0\<close> is treated as an absent one. The slippage that enters the worst
  price is never zero, the bounds for \<open>Some 0\<close> are those of the default \<open>0.01\<close>, and each of the
  four operations does with \<open>Some 0\<close> exactly what it does with \<open>None\<close>.
\<close>

theorem C10_zero_slippage_is_unspecified:
  "slippage_or_default (Some 0) = slippage_or_default None
   \<and> slippage_or_default s \<noteq> 0
   \<and> worst_price_buy p (Some 0) = p * 1.01
   \<and> worst_price_sell p (Some 0) = p * 0.99
   \<and> place_market_buy_order c v symbol sz (Some 0) = place_market_buy_order c v symbol sz None
   \<and> place_market_sell_order c v symbol sz (Some 0) = place_market_sell_order c v symbol sz None
   \<and> close_buy_position c v symbol sz (Some 0) = close_buy_position c v symbol sz None
   \<and> close_sell_position c v symbol sz (Some 0) = close_sell_position c v symbol sz None"
proof -
  have b: "worst_price_buy q (Some 0) = worst_price_buy q None" for q
    by (simp add: worst_price_buy_def slippage_or_default_def)
  have s: "worst_price_sell q (Some 0) = worst_price_sell q None" for q
    by (simp add: worst_price_sell_def slippage_or_default_def)
  have n: "slippage_or_default s \<noteq> 0"
    by (simp add: slippage_or_default_def split: option.split)
  have d: "slippage_or_default (Some 0) = slippage_or_default None"
    by (simp add: slippage_or_default_def)
  have pb: "worst_price_buy p (Some 0) = p * 1.01"
    by (simp add: worst_price_buy_def slippage_or_default_def)
  have ps: "worst_price_sell p (Some 0) = p * 0.99"
    by (simp add: worst_price_sell_def slippage_or_default_def)
  have o1: "place_market_buy_order c v symbol sz (Some 0) = place_market_buy_order c v symbol sz None"
    unfolding place_market_buy_order_def b ..
  have o2: "place_market_sell_order c v symbol sz (Some 0) = place_market_sell_order c v symbol sz None"
    unfolding place_market_sell_order_def s ..
  have o3: "close_buy_position c v symbol sz (Some 0) = close_buy_position c v symbol sz None"
    unfolding close_buy_position_def s ..
  have o4: "close_sell_position c v symbol sz (Some 0) = close_sell_position c v symbol sz None"
    unfolding close_sell_position_def b ..
  from d n pb ps o1 o2 o3 o4 show ?thesis by blast
qed

section \<open>Properties of the wait for a fill\<close>

lemma demo_fields:
  "signer_client demo_connector"
  "symbol_to_market_id_cache demo_connector ''ETH'' = Some 1"
  "base_endpoint demo_connector = Some ''https://venue''"
  "market_size_decimals demo_connector 1 = Some (Some 4)"
  "market_price_decimals demo_connector 1 = Some (Some 2)"
  "market_min_base_amounts demo_connector 1 = Some (Some 0.001)"
  "account_index demo_connector = Some 7"
  "trade_log demo_connector = []"
  by (simp_all add: demo_connector_def)

text \<open>One unfolding of the loop, for each of its three ways on.\<close>

lemma wait_loop_timeout:
  "\<not> elapsed s < real_of_int t \<Longrightarrow>
   wait_loop c a h e d t s = Some (Inl (TxNotConfirmed h t), s)"
  by (subst wait_loop.simps) simp

lemma wait_loop_return:
  "elapsed s < real_of_int t \<Longrightarrow> poll_tx c h e (a (polls s)) = Return r \<Longrightarrow>
   wait_loop c a h e d t s = Some (Inr r, s\<lparr>polls := Suc (polls s)\<rparr>)"
  by (subst wait_loop.simps) simp

lemma wait_loop_retry:
  "elapsed s < real_of_int t \<Longrightarrow> \<forall>r. poll_tx c h e (a (polls s)) \<noteq> Return r \<Longrightarrow>
   wait_loop c a h e d t s =
   wait_loop c a h e d t (sleep d (s\<lparr>polls := Suc (polls s)\<rparr>))"
  by (subst wait_loop.simps) (simp split: poll_outcome.split)

lemma wait_loop_outcome_bounded:
  assumes "0 < d"
  shows "real_of_int t - elapsed s \<le> real n * d \<Longrightarrow>
    \<exists>k. (\<forall>j<k. elapsed s + real j * d < real_of_int t
               \<and> (\<forall>r. poll_tx c h e (a (polls s + j)) \<noteq> Return r))
       \<and> ((real_of_int t \<le> elapsed s + real k * d
            \<and> wait_loop c a h e d t s =
                Some (Inl (TxNotConfirmed h t),
                      \<lparr>elapsed = elapsed s + real k * d, polls = polls s + k\<rparr>))
          \<or> (elapsed s + real k * d < real_of_int t
            \<and> (\<exists>r. poll_tx c h e (a (polls s + k)) = Return r
                 \<and> wait_loop c a h e d t s =
                     Some (Inr r, \<lparr>elapsed = elapsed s + real k * d,
                                   polls = Suc (polls s + k)\<rparr>))))"
proof (induction n arbitrary: s)
  case 0
  then have "\<not> elapsed s < real_of_int t" by simp
  then have "wait_loop c a h e d t s = Some (Inl (TxNotConfirmed h t), s)"
    by (rule wait_loop_timeout)
  with 0 show ?case
    by (intro exI [of _ 0]) simp
next
  case (Suc n)
  show ?case
  proof (cases "elapsed s < real_of_int t")
    case False
    then have "wait_loop c a h e d t s = Some (Inl (TxNotConfirmed h t), s)"
      by (rule wait_loop_timeout)
    with False show ?thesis
      by (intro exI [of _ 0]) simp
  next
    case before: True
    show ?thesis
    proof (cases "\<exists>r. poll_tx c h e (a (polls s)) = Return r")
      case True
      then obtain r where r: "poll_tx c h e (a (polls s)) = Return r" ..
      from wait_loop_return [of s t c h e a r d, OF before r]
      have "wait_loop c a h e d t s = Some (Inr r, \<lparr>elapsed = elapsed s, polls = Suc (polls s)\<rparr>)"
        by simp
      with before r show ?thesis
        by (intro exI [of _ 0]) simp
    next
      case False
      then have nr: "\<forall>r. poll_tx c h e (a (polls s)) \<noteq> Return r" by simp
      define s2 where "s2 = sleep d (s\<lparr>polls := Suc (polls s)\<rparr>)"
      have e2: "elapsed s2 = elapsed s + d" and p2: "polls s2 = Suc (polls s)"
        using assms by (simp_all add: s2_def sleep_def)
      have step: "wait_loop c a h e d t s = wait_loop c a h e d t s2"
        unfolding s2_def using before nr by (rule wait_loop_retry)
      from Suc.prems have "real_of_int t - elapsed s2 \<le> real n * d"
        by (simp add: e2 algebra_simps)
      from Suc.IH [OF this] obtain k where
        all: "\<forall>j<k. elapsed s2 + real j * d < real_of_int t
               \<and> (\<forall>r. poll_tx c h e (a (polls s2 + j)) \<noteq> Return r)"
        and fin: "(real_of_int t \<le> elapsed s2 + real k * d
            \<and> wait_loop c a h e d t s2 =
                Some (Inl (TxNotConfirmed h t),
                      \<lparr>elapsed = elapsed s2 + real k * d, polls = polls s2 + k\<rparr>))
          \<or> (elapsed s2 + real k * d < real_of_int t
            \<and> (\<exists>r. poll_tx c h e (a (polls s2 + k)) = Return r
                 \<and> wait_loop c a h e d t s2 =
                     Some (Inr r, \<lparr>elapsed = elapsed s2 + real k * d,
                                   polls = Suc (polls s2 + k)\<rparr>)))"
        by blast
      have shift: "elapsed s2 + real j * d = elapsed s + real (Suc j) * d" for j
        by (simp add: e2 algebra_simps)
      have all': "\<forall>j<Suc k. elapsed s + real j * d < real_of_int t
               \<and> (\<forall>r. poll_tx c h e (a (polls s + j)) \<noteq> Return r)"
      proof (intro allI impI)
        fix j assume "j < Suc k"
        show "elapsed s + real j * d < real_of_int t
               \<and> (\<forall>r. poll_tx c h e (a (polls s + j)) \<noteq> Return r)"
        proof (cases j)
          case 0
          with before nr show ?thesis by simp
        next
          case (Suc i)
          with \<open>j < Suc k\<close> have "i < k" by simp
          with all have "elapsed s2 + real i * d < real_of_int t
               \<and> (\<forall>r. poll_tx c h e (a (polls s2 + i)) \<noteq> Return r)" by blast
          then show ?thesis
            unfolding shift p2 Suc by simp
        qed
      qed
      from fin have fin': "(real_of_int t \<le> elapsed s + real (Suc k) * d
            \<and> wait_loop c a h e d t s =
                Some (Inl (TxNotConfirmed h t),
                      \<lparr>elapsed = elapsed s + real (Suc k) * d, polls = polls s + Suc k\<rparr>))
          \<or> (elapsed s + real (Suc k) * d < real_of_int t
            \<and> (\<exists>r. poll_tx c h e (a (polls s + Suc k)) = Return r
                 \<and> wait_loop c a h e d t s =
                     Some (Inr r, \<lparr>elapsed = elapsed s + real (Suc k) * d,
                                   polls = Suc (polls s + Suc k)\<rparr>)))"
        unfolding shift p2 step by simp
      from all' fin' show ?thesis by (intro exI [of _ "Suc k"] conjI)
    qed
  qed
qed

text \<open>
  With a positive poll interval the loop returns, after some number \<open>k\<close> of sleeps: either
  the time is up, or the request after the \<open>k\<close>-th sleep settles. Every request before
  was sent before the timeout and did not settle.
\<close>

lemma wait_loop_outcome:
  assumes "0 < d"
  shows "\<exists>k. (\<forall>j<k. elapsed s + real j * d < real_of_int t
               \<and> (\<forall>r. poll_tx c h e (a (polls s + j)) \<noteq> Return r))
       \<and> ((real_of_int t \<le> elapsed s + real k * d
            \<and> wait_loop c a h e d t s =
                Some (Inl (TxNotConfirmed h t),
                      \<lparr>elapsed = elapsed s + real k * d, polls = polls s + k\<rparr>))
          \<or> (elapsed s + real k * d < real_of_int t
            \<and> (\<exists>r. poll_tx c h e (a (polls s + k)) = Return r
                 \<and> wait_loop c a h e d t s =
                     Some (Inr r, \<lparr>elapsed = elapsed s + real k * d,
                                   polls = Suc (polls s + k)\<rparr>))))"
proof -
  from reals_Archimedean3 [OF assms] obtain n where "real_of_int t - elapsed s < real n * d"
    by blast
  then have "real_of_int t - elapsed s \<le> real n * d" by simp
  then show ?thesis by (rule wait_loop_outcome_bounded [OF assms])
qed



text \<open>The wait never fails with the error that \<^verbatim>\<open>status > 3\<close> raises.\<close>

lemma wait_for_fill_fails_by_timeout_only:
  assumes "0 < d" and "LIGHTER_POLL_INTERVAL v = Value d"
    and "wait_for_fill c v h symbol side e t = Some (Inl failure)"
  shows "failure = TxNotConfirmed h t"
proof -
  from wait_loop_outcome [OF assms(1), of "\<lparr>elapsed = 0, polls = 0\<rparr>" t c h e "tx v h"]
  obtain r s' where "wait_loop c (tx v h) h e d t \<lparr>elapsed = 0, polls = 0\<rparr> = Some (r, s')"
    and "r = Inl (TxNotConfirmed h t) \<or> (\<exists>fr. r = Inr fr)"
    by auto
  with assms(2,3) show ?thesis
    by (auto simp: wait_for_fill_def wait_for_fill_trace_def)
qed

text \<open>
  C3 fails on the code: the exception raised for a status beyond 3 is raised inside the
  \<^verbatim>\<open>try\<close> block and caught by its \<^verbatim>\<open>except Exception\<close>, which sleeps and lets the loop go on.
  Against a venue that answers status 4 to every request, with a timeout of 3 seconds and
  a poll interval of 1 second, the wait sends three requests and fails with the timeout error.
\<close>

theorem C3_rejected_status_polls_until_timeout:
  "poll_tx demo_connector ''0xabc'' 2 (Answer 200 (Some rejected_tx))
     = Raise (TxFailedStatus ''0xabc'' 4)
   \<and> wait_for_fill_trace demo_connector rejecting_venue ''0xabc'' ''ETH'' BUY 2 3
     = Some (Inl (TxNotConfirmed ''0xabc'' 3), \<lparr>elapsed = 3, polls = 3\<rparr>)"
  by (simp add: wait_for_fill_trace_def rejecting_venue_def demo_venue_def wait_loop.simps
      poll_tx_def demo_fields rejected_tx_def sleep_def)



section \<open>Properties of the settlement data\<close>

text \<open>What one request returns for a settled transaction.\<close>

lemma poll_tx_settled_trade:
  assumes "base_endpoint c \<noteq> None" and "tx_status d = Some 3"
    and "tx_event_info d = TradeInfo p s"
  shows "poll_tx c h e (Answer 200 (Some d)) =
     Return \<lparr>fr_status = ''FILLED'', fr_tx_hash = h,
       actual_price = (case p of None \<Rightarrow> None | Some x \<Rightarrow> if 0 < x then Some (x / 100) else None),
       actual_size = (case s of None \<Rightarrow> e | Some y \<Rightarrow> if 0 < y then y / 10000 else e),
       fr_block_height = block_height d, fr_executed_at = executed_at d, fr_tx_data = d\<rparr>"
  using assms by (auto simp: poll_tx_def split: option.splits)

lemma poll_tx_settled_not_json:
  assumes "base_endpoint c \<noteq> None" and "tx_status d = Some 3"
    and "tx_event_info d = NotJSON"
  shows "poll_tx c h e (Answer 200 (Some d)) =
     Return \<lparr>fr_status = ''FILLED'', fr_tx_hash = h,
       actual_price = None, actual_size = e,
       fr_block_height = None, fr_executed_at = None, fr_tx_data = d\<rparr>"
  using assms by (auto simp: poll_tx_def split: option.splits)

text \<open>A settled transaction whose \<^verbatim>\<open>event_info\<close> is JSON but not a trade: the exception is
  not one of the two that the inner \<^verbatim>\<open>except\<close> catches, so it reaches the outer one.\<close>

lemma poll_tx_settled_not_a_trade:
  assumes "base_endpoint c \<noteq> None" and "tx_status d = Some 3"
    and "tx_event_info d = NotATrade"
  shows "poll_tx c h e (Answer 200 (Some d)) = Raise TypeError"
  using assms by (auto simp: poll_tx_def split: option.splits)

text \<open>
  The sequence of the spec: not found, processing, processing, settled with price field
  250000 and size field 10000. The wait returns at the fourth request, after three sleeps,
  with price 2500 and size 1.
\<close>

lemma wait_for_fill_spec_sequence:
  "wait_for_fill_trace demo_connector demo_venue ''0xabc'' symbol side 2 30 =
     Some (Inr \<lparr>fr_status = ''FILLED'', fr_tx_hash = ''0xabc'', actual_price = Some 2500,
                 actual_size = 1, fr_block_height = Some 812,
                 fr_executed_at = Some 1700000000, fr_tx_data = settled_tx\<rparr>,
           \<lparr>elapsed = 3, polls = 4\<rparr>)"
  by (simp add: wait_for_fill_trace_def demo_venue_def wait_loop.simps
      poll_tx_def demo_fields demo_tx_def settled_tx_def sleep_def)

text \<open>
  C7, as stated, fails where the price field is not positive: the result then carries no
  price at all, not the field divided by 100. A settled transaction with price field 0 and
  size field 10000 gives an absent price, where \<open>0 / 100 = 0\<close>.
\<close>

theorem C7_zero_price_counterexample:
  "wait_for_fill demo_connector (demo_venue\<lparr>tx := (\<lambda>h n. Answer 200 (Some unpriced_tx))\<rparr>)
      ''0xabc'' ''ETH'' BUY 2 30 =
     Some (Inr \<lparr>fr_status = ''FILLED'', fr_tx_hash = ''0xabc'', actual_price = None,
                 actual_size = 1, fr_block_height = Some 812,
                 fr_executed_at = Some 1700000000, fr_tx_data = unpriced_tx\<rparr>)
   \<and> (0 :: real) / 100 = 0"
  by (simp add: wait_for_fill_def wait_for_fill_trace_def demo_venue_def wait_loop.simps
      poll_tx_def demo_fields unpriced_tx_def)

text \<open>
  C7 (amended): when a request made before the timeout finds status 3, the wait returns at
  once with status \<^verbatim>\<open>FILLED\<close>.
  \<^item> If \<^verbatim>\<open>event_info\<close> holds a trade, the price is the price field divided by 100 when that
    is positive and absent otherwise; the size is the size field divided by 10000 when that
    is positive and the expected size otherwise. A missing field counts as 0.
  \<^item> If \<^verbatim>\<open>event_info\<close> is not JSON text, the price is absent and the size is the expected size.
\<close>

theorem C7_settled_extraction:
  assumes "base_endpoint c \<noteq> None" and "tx_status d = Some 3"
    and "elapsed st < real_of_int timeout" and "answers (polls st) = Answer 200 (Some d)"
  shows "(tx_event_info d = TradeInfo p s \<longrightarrow>
           wait_loop c answers h e poll_interval timeout st =
             Some (Inr \<lparr>fr_status = ''FILLED'', fr_tx_hash = h,
                     actual_price =
                       (case p of None \<Rightarrow> None
                        | Some x \<Rightarrow> if 0 < x then Some (x / 100) else None),
                     actual_size =
                       (case s of None \<Rightarrow> e
                        | Some y \<Rightarrow> if 0 < y then y / 10000 else e),
                     fr_block_height = block_height d, fr_executed_at = executed_at d,
                     fr_tx_data = d\<rparr>,
                   st\<lparr>polls := Suc (polls st)\<rparr>))
       \<and> (tx_event_info d = NotJSON \<longrightarrow>
           wait_loop c answers h e poll_interval timeout st =
             Some (Inr \<lparr>fr_status = ''FILLED'', fr_tx_hash = h,
                     actual_price = None, actual_size = e,
                     fr_block_height = None, fr_executed_at = None, fr_tx_data = d\<rparr>,
                   st\<lparr>polls := Suc (polls st)\<rparr>))"
proof (intro conjI impI)
  assume "tx_event_info d = TradeInfo p s"
  from poll_tx_settled_trade [OF assms(1,2) this, of h e] assms(3,4)
  show "wait_loop c answers h e poll_interval timeout st =
             Some (Inr \<lparr>fr_status = ''FILLED'', fr_tx_hash = h,
                     actual_price =
                       (case p of None \<Rightarrow> None
                        | Some x \<Rightarrow> if 0 < x then Some (x / 100) else None),
                     actual_size =
                       (case s of None \<Rightarrow> e
                        | Some y \<Rightarrow> if 0 < y then y / 10000 else e),
                     fr_block_height = block_height d, fr_executed_at = executed_at d,
                     fr_tx_data = d\<rparr>,
                   st\<lparr>polls := Suc (polls st)\<rparr>)"
    by (intro wait_loop_return) simp_all
next
  assume "tx_event_info d = NotJSON"
  from poll_tx_settled_not_json [OF assms(1,2) this, of h e] assms(3,4)
  show "wait_loop c answers h e poll_interval timeout st =
             Some (Inr \<lparr>fr_status = ''FILLED'', fr_tx_hash = h,
                     actual_price = None, actual_size = e,
                     fr_block_height = None, fr_executed_at = None, fr_tx_data = d\<rparr>,
                   st\<lparr>polls := Suc (polls st)\<rparr>)"
    by (intro wait_loop_return) simp_all
qed

theorem C7_settled_extraction_witness:
  "base_endpoint demo_connector \<noteq> None \<and> tx_status settled_tx = Some 3
   \<and> tx_status garbled_tx = Some 3
   \<and> elapsed \<lparr>elapsed = 3, polls = 3\<rparr> < real_of_int 30
   \<and> demo_tx (polls \<lparr>elapsed = 3, polls = 3\<rparr>) = Answer 200 (Some settled_tx)
   \<and> tx_event_info settled_tx = TradeInfo (Some 250000) (Some 10000)
   \<and> tx_event_info garbled_tx = NotJSON
   \<and> wait_loop demo_connector demo_tx ''0xabc'' 2 1 30 \<lparr>elapsed = 3, polls = 3\<rparr> =
       Some (Inr \<lparr>fr_status = ''FILLED'', fr_tx_hash = ''0xabc'', actual_price = Some 2500,
                   actual_size = 1, fr_block_height = Some 812,
                   fr_executed_at = Some 1700000000, fr_tx_data = settled_tx\<rparr>,
             \<lparr>elapsed = 3, polls = 4\<rparr>)
   \<and> wait_loop demo_connector (\<lambda>n. Answer 200 (Some garbled_tx)) ''0xabc'' 2 1 30
         \<lparr>elapsed = 0, polls = 0\<rparr> =
       Some (Inr \<lparr>fr_status = ''FILLED'', fr_tx_hash = ''0xabc'', actual_price = None,
                   actual_size = 2, fr_block_height = None,
                   fr_executed_at = None, fr_tx_data = garbled_tx\<rparr>,
             \<lparr>elapsed = 0, polls = 1\<rparr>)"
proof -
  have b: "base_endpoint demo_connector \<noteq> None" by (simp add: demo_fields)
  have s1: "tx_status settled_tx = Some 3" by (simp add: settled_tx_def)
  have s2: "tx_status garbled_tx = Some 3" by (simp add: garbled_tx_def)
  have t1: "elapsed \<lparr>elapsed = 3, polls = 3\<rparr> < real_of_int 30" by simp
  have t2: "elapsed \<lparr>elapsed = 0, polls = 0\<rparr> < real_of_int 30" by simp
  have a1: "demo_tx (polls \<lparr>elapsed = 3, polls = 3\<rparr>) = Answer 200 (Some settled_tx)"
    by (simp add: demo_tx_def settled_tx_def)
  have a2: "(\<lambda>n. Answer 200 (Some garbled_tx)) (polls \<lparr>elapsed = 0, polls = 0\<rparr>)
      = Answer 200 (Some garbled_tx)" by simp
  show ?thesis
    using b s1 s2 t1 a1
      C7_settled_extraction [where answers = demo_tx and st = "\<lparr>elapsed = 3, polls = 3\<rparr>"
          and p = "Some 250000" and s = "Some 10000" and h = "''0xabc''" and e = 2
          and poll_interval = 1, OF b s1 t1 a1]
      C7_settled_extraction [where answers = "\<lambda>n. Answer 200 (Some garbled_tx)"
          and st = "\<lparr>elapsed = 0, polls = 0\<rparr>" and h = "''0xabc''" and e = 2
          and poll_interval = 1, OF b s2 t2 a2]
    by (simp add: settled_tx_def garbled_tx_def)
qed

section \<open>Properties of the market metadata\<close>

lemma ensure_market_data_cached:
  assumes "market_size_decimals c m \<noteq> None" and "market_price_decimals c m \<noteq> None"
    and "market_min_base_amounts c m \<noteq> None"
  shows "ensure_market_data c v m = (Inr (), c)"
  using assms by (auto simp: ensure_market_data_def)

text \<open>
  C4, as stated, fails: the three cache entries are written one after the other, each
  after reading its field, so a response that has \<^verbatim>\<open>size_decimals\<close> and lacks
  \<^verbatim>\<open>price_decimals\<close> makes the operation fail with the size decimals of the market already
  cached and the other two entries absent.
\<close>

theorem C4_partial_record_counterexample:
  "fst (ensure_market_data demo_connector meta_venue 3)
     = Inl (Failed ''get market decimals'' (KeyError ''price_decimals''))
   \<and> market_size_decimals (snd (ensure_market_data demo_connector meta_venue 3)) 3
     = Some (Some 3)
   \<and> market_price_decimals (snd (ensure_market_data demo_connector meta_venue 3)) 3 = None
   \<and> market_min_base_amounts (snd (ensure_market_data demo_connector meta_venue 3)) 3 = None"
  by (simp add: ensure_market_data_def demo_connector_def meta_venue_def demo_venue_def)

text \<open>
  C4 (amended): for a market that is not fully cached, with a base endpoint and a metadata
  response \<open>d\<close>, the operation fails exactly when \<open>d\<close> lacks one of the three fields. The
  fields of \<open>d\<close> that come before the first missing one, in the order \<^verbatim>\<open>size_decimals\<close>,
  \<^verbatim>\<open>price_decimals\<close>, \<^verbatim>\<open>min_base_amount\<close>, are cached all the same; the others are left as they
  were. When no field is missing all three are cached.
\<close>

theorem C4_ensure_caches_fields_in_order:
  assumes "market_size_decimals c m = None \<or> market_price_decimals c m = None
           \<or> market_min_base_amounts c m = None"
    and "base_endpoint c = Some url" and "url \<noteq> []"
    and "orderbook_meta v m = Inr d"
    and "ensure_market_data c v m = (r, c')"
  shows "(isl r \<longleftrightarrow> size_decimals d = None \<or> price_decimals d = None \<or> min_base_amount d = None)
       \<and> market_size_decimals c' m =
           (case size_decimals d of None \<Rightarrow> market_size_decimals c m | Some x \<Rightarrow> Some x)
       \<and> market_price_decimals c' m =
           (if size_decimals d = None \<or> price_decimals d = None then market_price_decimals c m
            else price_decimals d)
       \<and> market_min_base_amounts c' m =
           (if size_decimals d = None \<or> price_decimals d = None \<or> min_base_amount d = None
            then market_min_base_amounts c m else min_base_amount d)"
  using assms
  by (auto simp: ensure_market_data_def dom_def Let_def split: option.splits)

theorem C4_ensure_caches_fields_witness:
  "(market_size_decimals demo_connector 2 = None \<or> market_price_decimals demo_connector 2 = None
      \<or> market_min_base_amounts demo_connector 2 = None)
   \<and> base_endpoint demo_connector = Some ''https://venue'' \<and> ''https://venue'' \<noteq> []
   \<and> orderbook_meta meta_venue 2
       = Inr \<lparr>size_decimals = Some (Some 3), price_decimals = Some (Some 1),
               min_base_amount = Some (Some 0.01)\<rparr>
   \<and> fst (ensure_market_data demo_connector meta_venue 2) = Inr ()
   \<and> market_size_decimals (snd (ensure_market_data demo_connector meta_venue 2)) 2
       = Some (Some 3)
   \<and> market_price_decimals (snd (ensure_market_data demo_connector meta_venue 2)) 2
       = Some (Some 1)
   \<and> market_min_base_amounts (snd (ensure_market_data demo_connector meta_venue 2)) 2
       = Some (Some 0.01)"
proof -
  have a: "market_size_decimals demo_connector 2 = None
      \<or> market_price_decimals demo_connector 2 = None
      \<or> market_min_base_amounts demo_connector 2 = None"
    by (simp add: demo_connector_def)
  have b: "base_endpoint demo_connector = Some ''https://venue''"
    by (simp add: demo_connector_def)
  have u: "''https://venue'' \<noteq> []" by simp
  have m: "orderbook_meta meta_venue 2
       = Inr \<lparr>size_decimals = Some (Some 3), price_decimals = Some (Some 1),
               min_base_amount = Some (Some 0.01)\<rparr>"
    by (simp add: meta_venue_def)
  have e: "ensure_market_data demo_connector meta_venue 2
       = (fst (ensure_market_data demo_connector meta_venue 2),
          snd (ensure_market_data demo_connector meta_venue 2))"
    by simp
  from C4_ensure_caches_fields_in_order [OF a b u m e] a b u m
  show ?thesis
    by (cases "fst (ensure_market_data demo_connector meta_venue 2)") auto
qed

section \<open>Properties of the position list\<close>

text \<open>What the loop body builds from an entry of non-zero size, and what the loop keeps.\<close>

lemma make_position_props:
  assumes "make_position c v pd x = Inr p"
  shows "pos_size p = \<bar>x\<bar>
    \<and> pd_symbol pd = Some (pos_symbol p)
    \<and> pos_side p = (if pd_sign pd = Some 1 then BUY else SELL)
    \<and> pos_leverage p = (case pd_initial_margin_fraction pd of
          None \<Rightarrow> 1
        | Some f \<Rightarrow> if 0 < f then 100 / f else 1)"
  using assms
  by (auto simp: make_position_def Let_def split: option.splits sum.splits if_splits)

lemma collect_positions_filter:
  "collect_positions c v pds = Inr ps \<Longrightarrow>
   list_all2 (\<lambda>pd p. \<exists>x. pd_position pd = Some x \<and> x \<noteq> 0 \<and> make_position c v pd x = Inr p)
     (filter (\<lambda>pd. pd_position pd \<noteq> Some 0) pds) ps"
proof (induction pds arbitrary: ps)
  case Nil
  then show ?case by simp
next
  case (Cons pd rest)
  then show ?case
    by (auto split: option.splits sum.splits if_splits)
qed

text \<open>
  C9: the list returned is empty (no account index, a failed request, an entry that cannot
  be read, or no open position), or it has one position for each entry of the first
  account whose size is not zero, in the order of the entries. The size of a position is the
  absolute value of the entry's; its side is BUY for sign 1 and SELL for sign \<open>-1\<close>; its
  leverage is 100 divided by the initial margin fraction when that is positive, and 1 when
  it is zero, negative or absent.
\<close>

theorem C9_positions_from_account:
  "get_open_positions c v = []
   \<or> (\<exists>account_data others. account v = Inr (account_data # others)
        \<and> list_all2
             (\<lambda>pd p. \<exists>x. pd_position pd = Some x \<and> x \<noteq> 0 \<and> pos_size p = \<bar>x\<bar>
                  \<and> pd_symbol pd = Some (pos_symbol p)
                  \<and> (pd_sign pd = Some 1 \<longrightarrow> pos_side p = BUY)
                  \<and> (pd_sign pd = Some (- 1) \<longrightarrow> pos_side p = SELL)
                  \<and> pos_leverage p =
                      (case pd_initial_margin_fraction pd of
                         None \<Rightarrow> 1
                       | Some f \<Rightarrow> if 0 < f then 100 / f else 1))
             (filter (\<lambda>pd. pd_position pd \<noteq> Some 0) account_data)
             (get_open_positions c v))"
proof (cases "get_open_positions c v = []")
  case True
  then show ?thesis by simp
next
  case False
  then obtain account_data others ps where
    acc: "account v = Inr (account_data # others)"
    and col: "collect_positions c v account_data = Inr ps"
    and res: "get_open_positions c v = ps"
    by (auto simp: get_open_positions_def split: if_splits sum.splits list.splits)
  from collect_positions_filter [OF col]
  have "list_all2
             (\<lambda>pd p. \<exists>x. pd_position pd = Some x \<and> x \<noteq> 0 \<and> pos_size p = \<bar>x\<bar>
                  \<and> pd_symbol pd = Some (pos_symbol p)
                  \<and> (pd_sign pd = Some 1 \<longrightarrow> pos_side p = BUY)
                  \<and> (pd_sign pd = Some (- 1) \<longrightarrow> pos_side p = SELL)
                  \<and> pos_leverage p =
                      (case pd_initial_margin_fraction pd of
                         None \<Rightarrow> 1
                       | Some f \<Rightarrow> if 0 < f then 100 / f else 1))
             (filter (\<lambda>pd. pd_position pd \<noteq> Some 0) account_data) ps"
  proof (rule list_all2_mono)
    fix pd p
    assume "\<exists>x. pd_position pd = Some x \<and> x \<noteq> 0 \<and> make_position c v pd x = Inr p"
    then obtain x where x: "pd_position pd = Some x" "x \<noteq> 0"
      and mk: "make_position c v pd x = Inr p" by blast
    from make_position_props [OF mk] x
    show "\<exists>x. pd_position pd = Some x \<and> x \<noteq> 0 \<and> pos_size p = \<bar>x\<bar>
                  \<and> pd_symbol pd = Some (pos_symbol p)
                  \<and> (pd_sign pd = Some 1 \<longrightarrow> pos_side p = BUY)
                  \<and> (pd_sign pd = Some (- 1) \<longrightarrow> pos_side p = SELL)
                  \<and> pos_leverage p =
                      (case pd_initial_margin_fraction pd of
                         None \<Rightarrow> 1
                       | Some f \<Rightarrow> if 0 < f then 100 / f else 1)"
      by auto
  qed
  with acc res show ?thesis by blast
qed

lemma demo_price: "get_current_price demo_connector demo_venue ''ETH'' = Inr 100"
  by (simp add: get_current_price_def demo_fields demo_venue_def)

theorem C9_positions_witness:
  "get_open_positions demo_connector demo_venue =
     [\<lparr>pos_symbol = ''ETH'', pos_side = SELL, pos_size = 2, pos_entry_price = 2400,
       pos_current_price = 100, pos_unrealized_pnl = - 3, pos_leverage = 4\<rparr>,
      \<lparr>pos_symbol = ''ETH'', pos_side = BUY, pos_size = 5, pos_entry_price = 90,
       pos_current_price = 100, pos_unrealized_pnl = 50, pos_leverage = 1\<rparr>]"
proof -
  have a: "account demo_venue = Inr [demo_positions]"
    by (simp add: demo_venue_def)
  show ?thesis
    using C9_positions_from_account [of demo_connector demo_venue]
    by (simp add: get_open_positions_def demo_fields a demo_positions_def make_position_def
        demo_price)
qed

section \<open>Properties of the order operations\<close>

text \<open>The example connector on the example venues.\<close>

lemma demo_ensure: "ensure_market_data demo_connector v 1 = (Inr (), demo_connector)"
  by (simp add: ensure_market_data_def demo_fields dom_def)


lemma demo_resolve:
  "resolve_market demo_connector demo_venue ''ETH'' = (Inr (1, 100), demo_connector)"
  by (simp add: resolve_market_def demo_ensure demo_price demo_fields)


lemma demo_submit:
  "submit_market_order demo_connector demo_venue 1 sz wp ask ro = Inr ''0xabc''"
  by (simp add: submit_market_order_def convert_size_to_lighter_format_def
      convert_price_to_lighter_format_def demo_fields demo_venue_def extract_tx_hash_def)


lemma demo_wait:
  "wait_for_fill demo_connector demo_venue ''0xabc'' ''ETH'' side 2 30 =
     Some (Inr \<lparr>fr_status = ''FILLED'', fr_tx_hash = ''0xabc'', actual_price = Some 2500,
                 actual_size = 1, fr_block_height = Some 812,
                 fr_executed_at = Some 1700000000, fr_tx_data = settled_tx\<rparr>)"
  by (simp add: wait_for_fill_def wait_for_fill_spec_sequence)

lemma demo_env: "LIGHTER_FILL_TIMEOUT demo_venue = Value 30"
  by (simp add: demo_venue_def)







text \<open>The two operations that do not wait never look at the transaction endpoint.\<close>

lemma ensure_market_data_ignores_tx:
  "ensure_market_data c (v\<lparr>tx := t\<rparr>) m = ensure_market_data c v m"
  by (simp add: ensure_market_data_def split: sum.split option.split)

lemma get_current_price_ignores_tx:
  "get_current_price c (v\<lparr>tx := t\<rparr>) symbol = get_current_price c v symbol"
  by (simp add: get_current_price_def split: option.split)

lemma resolve_market_ignores_tx:
  "resolve_market c (v\<lparr>tx := t\<rparr>) symbol = resolve_market c v symbol"
  unfolding resolve_market_def ensure_market_data_ignores_tx get_current_price_ignores_tx ..

lemma submit_market_order_ignores_tx:
  "submit_market_order c (v\<lparr>tx := t\<rparr>) m sz wp ask ro = submit_market_order c v m sz wp ask ro"
  by (simp add: submit_market_order_def split: sum.split)

lemma sell_orders_ignore_tx:
  "place_market_sell_order c (v\<lparr>tx := t\<rparr>) symbol sz sl = place_market_sell_order c v symbol sz sl"
  "close_sell_position c (v\<lparr>tx := t\<rparr>) symbol sz sl = close_sell_position c v symbol sz sl"
  unfolding place_market_sell_order_def close_sell_position_def
    resolve_market_ignores_tx submit_market_order_ignores_tx
  by (rule refl)+

text \<open>
  C5 fails on the code for the two operations that sell to open and buy to close:
  \<^verbatim>\<open>place_market_sell_order\<close> and \<^verbatim>\<open>close_sell_position\<close> build the order right after the
  submission, from the requested size and the price fetched before it, and never call
  \<^verbatim>\<open>_wait_for_fill\<close>; \<^verbatim>\<open>place_market_buy_order\<close> and \<^verbatim>\<open>close_buy_position\<close> do call it. On the
  example venue, where the transaction \<open>0xabc\<close> settles at price 2500 and size 1, the first
  two report size 2 at price 100, the other two size 1 at price 2500.
\<close>

theorem C5_sell_operations_skip_the_fill_wait:
  "map_option fst (place_market_sell_order demo_connector demo_venue ''ETH'' 2 (Some 0.01)) =
     Some (Inr \<lparr>order_id = ''0xabc'', order_symbol = ''ETH'', order_side = SELL,
                 order_type = MARKET, order_size = 2, order_price = Some 100,
                 order_status = FILLED\<rparr>)
   \<and> map_option fst (close_sell_position demo_connector demo_venue ''ETH'' 2 (Some 0.01)) =
     Some (Inr \<lparr>order_id = ''0xabc'', order_symbol = ''ETH'', order_side = BUY,
                 order_type = MARKET, order_size = 2, order_price = Some 100,
                 order_status = FILLED\<rparr>)
   \<and> map_option fst (place_market_buy_order demo_connector demo_venue ''ETH'' 2 (Some 0.01)) =
     Some (Inr \<lparr>order_id = ''0xabc'', order_symbol = ''ETH'', order_side = BUY,
                 order_type = MARKET, order_size = 1, order_price = Some 2500,
                 order_status = FILLED\<rparr>)
   \<and> map_option fst (close_buy_position demo_connector demo_venue ''ETH'' 2 (Some 0.01)) =
     Some (Inr \<lparr>order_id = ''0xabc'', order_symbol = ''ETH'', order_side = SELL,
                 order_type = MARKET, order_size = 1, order_price = Some 2500,
                 order_status = FILLED\<rparr>)"
  by (simp add: place_market_sell_order_def close_sell_position_def place_market_buy_order_def
      close_buy_position_def demo_resolve demo_submit demo_env demo_wait Let_def)



end
